theory Spec2Isabelle
  imports Main "HOL-Library.Char_ord"
begin

section \<open>Strings of the host language\<close>

text \<open>
  The program is a Node.js script (\<^verbatim>\<open>index.js\<close>). Its strings are modelled as
  \<^typ>\<open>string\<close>; a character stands for a code unit below 256. The whitespace of
  \<^verbatim>\<open>String.prototype.trim\<close> and of the regular expression class \<^verbatim>\<open>\s\<close> is, in
  this range, tab, line feed, vertical tab, form feed, carriage return, space and the
  no-break space.
\<close>

definition isSpace :: "char \<Rightarrow> bool" where
  "isSpace c = (c = CHR 0x09 \<or> c = CHR 0x0A \<or> c = CHR 0x0B \<or> c = CHR 0x0C \<or> c = CHR 0x0D
     \<or> c = CHR 0x20 \<or> c = CHR 0xA0)"

text \<open>The class \<^verbatim>\<open>\w\<close>: ASCII letters, digits and the underscore.\<close>

definition isDigit :: "char \<Rightarrow> bool" where
  "isDigit c = (CHR ''0'' \<le> c \<and> c \<le> CHR ''9'')"

definition isWordChar :: "char \<Rightarrow> bool" where
  "isWordChar c = ((CHR ''a'' \<le> c \<and> c \<le> CHR ''z'') \<or> (CHR ''A'' \<le> c \<and> c \<le> CHR ''Z'')
     \<or> isDigit c \<or> c = CHR ''_'')"

definition dquote :: char where
  "dquote = CHR 0x22"

text \<open>\<^verbatim>\<open>s.trim()\<close>.\<close>

definition js_trim :: "string \<Rightarrow> string" where
  "js_trim s = rev (dropWhile isSpace (rev (dropWhile isSpace s)))"

text \<open>
  Splitting a text at every character that satisfies \<open>P\<close>: the pieces between
  these characters, in order; the empty text gives one empty piece.
  \<^verbatim>\<open>s.split(sep)\<close>, for a separator of one character, splits at that character.
\<close>

fun splitOn :: "(char \<Rightarrow> bool) \<Rightarrow> string \<Rightarrow> string list" where
  "splitOn P [] = [[]]"
| "splitOn P (c # cs) =
     (if P c then [] # splitOn P cs
      else (case splitOn P cs of [] \<Rightarrow> [[c]] | p # ps \<Rightarrow> (c # p) # ps))"

definition js_split :: "char \<Rightarrow> string \<Rightarrow> string list" where
  "js_split sep s = splitOn (\<lambda>c. c = sep) s"

text \<open>\<^verbatim>\<open>parts.join(sep)\<close>.\<close>

fun js_join :: "string \<Rightarrow> string list \<Rightarrow> string" where
  "js_join sep [] = []"
| "js_join sep [p] = p"
| "js_join sep (p # q # ps) = p @ sep @ js_join sep (q # ps)"

text \<open>
  \<^verbatim>\<open>s.split(/\s+/)\<close>: the pieces between maximal runs of whitespace (a leading or
  trailing run leaves an empty piece at that end).
\<close>

function splitSpaces :: "string \<Rightarrow> string list" where
  "splitSpaces [] = [[]]"
| "splitSpaces (c # cs) =
     (if isSpace c then [] # splitSpaces (dropWhile isSpace cs)
      else (case splitSpaces cs of [] \<Rightarrow> [[c]] | p # ps \<Rightarrow> (c # p) # ps))"
  by pat_completeness auto
termination
  by (relation "measure length") (auto simp: length_dropWhile_le less_Suc_eq_le)

text \<open>\<^verbatim>\<open>s.startsWith(p)\<close>, used to read the literal parts of the patterns.\<close>

definition startsWith :: "string \<Rightarrow> string \<Rightarrow> bool" where
  "startsWith p s = (take (length p) s = p)"

text \<open>
  \<^verbatim>\<open>name.charAt(0).toUpperCase() + name.slice(1)\<close> (ASCII letters; the names this
  is applied to are those of \<open>svgElements\<close>).
\<close>

definition toUpperCase :: "char \<Rightarrow> char" where
  "toUpperCase c = (if CHR ''a'' \<le> c \<and> c \<le> CHR ''z'' then char_of (of_char c - (32::nat)) else c)"

definition capitalize :: "string \<Rightarrow> string" where
  "capitalize s = (case s of [] \<Rightarrow> [] | c # cs \<Rightarrow> toUpperCase c # cs)"

section \<open>Regular expressions as scanners\<close>

text \<open>
  Each regular expression of the source is modelled by a function that tries the
  pattern at the head of the remaining text and returns what the match captured
  together with the number of characters it consumed (always at least one for the
  patterns of this program). \<open>matchAll\<close> is the \<^verbatim>\<open>while ((m = re.exec(s)) !== null)\<close>
  loop of a global expression: the matches from left to right, each search resuming
  where the previous match ended. \<open>replaceAll\<close> is \<^verbatim>\<open>s.replace(re, f)\<close> for a global
  expression: every match is replaced by what the matcher returns for it, the text
  between the matches is kept.
\<close>

fun matchAll :: "(string \<Rightarrow> ('a \<times> nat) option) \<Rightarrow> string \<Rightarrow> 'a list" where
  "matchAll m [] = []"
| "matchAll m (c # cs) =
     (case m (c # cs) of
        None \<Rightarrow> matchAll m cs
      | Some (g, n) \<Rightarrow> g # matchAll m (drop (n - 1) cs))"

fun replaceAll :: "(string \<Rightarrow> (string \<times> nat) option) \<Rightarrow> string \<Rightarrow> string" where
  "replaceAll m [] = []"
| "replaceAll m (c # cs) =
     (case m (c # cs) of
        None \<Rightarrow> c # replaceAll m cs
      | Some (r, n) \<Rightarrow> r @ replaceAll m (drop (n - 1) cs))"

text \<open>
  The rule pattern \<^verbatim>\<open>/\.([^{]+){([^}]+)}/g\<close> (lines 47 and 125): a dot, a non-empty
  maximal run of characters other than \<^verbatim>\<open>{\<close>, the brace, a non-empty maximal run of
  characters other than \<^verbatim>\<open>}\<close>, the closing brace. A greedy run that is not followed
  by its delimiter cannot be shortened into a match, since every shorter run is
  followed by a character of the run.
\<close>

definition ruleRegex :: "string \<Rightarrow> ((string \<times> string) \<times> nat) option" where
  "ruleRegex s =
     (case s of
        [] \<Rightarrow> None
      | c # t \<Rightarrow>
          if c \<noteq> CHR ''.'' then None
          else
            let sel = takeWhile (\<lambda>x. x \<noteq> CHR ''{'') t;
                t1 = dropWhile (\<lambda>x. x \<noteq> CHR ''{'') t
            in if sel = [] \<or> t1 = [] then None
               else
                 let body = takeWhile (\<lambda>x. x \<noteq> CHR ''}'') (tl t1);
                     t2 = dropWhile (\<lambda>x. x \<noteq> CHR ''}'') (tl t1)
                 in if body = [] \<or> t2 = [] then None
                    else Some ((sel, body), length sel + length body + 3))"

section \<open>The declaration parser\<close>

text \<open>
  Lines 50-54 and 129-131: every match of the rule pattern gives a class name and a
  declaration text, both trimmed.
\<close>

definition cssRules :: "string \<Rightarrow> (string \<times> string) list" where
  "cssRules styleText = map (\<lambda>(sel, body). (js_trim sel, js_trim body)) (matchAll ruleRegex styleText)"

text \<open>
  Lines 63-66: \<^verbatim>\<open>decl.split(";").map((prop) => prop.trim()).filter((prop) => prop.length > 0)\<close>.
\<close>

definition styleProps :: "string \<Rightarrow> string list" where
  "styleProps decl = filter (\<lambda>prop. length prop > 0) (map js_trim (js_split CHR '';'' decl))"

text \<open>
  Lines 70 and 138: \<^verbatim>\<open>const [name, value] = prop.split(":").map((part) => part.trim())\<close>.
  The destructuring takes the first two pieces; \<open>value\<close> is \<^verbatim>\<open>undefined\<close> (here
  \<open>None\<close>) when there is one piece only.
\<close>

definition nameValue :: "string \<Rightarrow> string \<times> string option" where
  "nameValue prop =
     (case map js_trim (js_split CHR '':'' prop) of
        [] \<Rightarrow> ([], None)
      | [name] \<Rightarrow> (name, None)
      | name # value # _ \<Rightarrow> (name, Some value))"

text \<open>The pairs the structured path applies for one declaration text (lines 63-72).\<close>

definition declarations :: "string \<Rightarrow> (string \<times> string option) list" where
  "declarations decl = map nameValue (styleProps decl)"

section \<open>The textual fallback (lines 111-269)\<close>

text \<open>
  \<^verbatim>\<open>re.exec(s)\<close> called once on a fresh expression: the first match from the left.
\<close>

fun matchFirst :: "(string \<Rightarrow> ('a \<times> nat) option) \<Rightarrow> string \<Rightarrow> 'a option" where
  "matchFirst m [] = None"
| "matchFirst m (c # cs) =
     (case m (c # cs) of
        None \<Rightarrow> matchFirst m cs
      | Some (g, n) \<Rightarrow> Some g)"

text \<open>
  Line 120, \<^verbatim>\<open>/<style>\s*([\s\S]*?)\s*<\/style>/g\<close>: after the opening tag and a
  greedy run of whitespace, the lazy group grows one character at a time until
  the rest reads as whitespace followed by the closing tag. The closing tag
  starts with \<^verbatim>\<open><\<close>, which is no whitespace, so giving back whitespace never
  helps either run.
\<close>

fun lazyGroup :: "string \<Rightarrow> (string \<times> nat) option" where
  "lazyGroup [] = None"
| "lazyGroup (c # cs) =
     (if startsWith ''</style>'' (dropWhile isSpace (c # cs))
      then Some ([], length (takeWhile isSpace (c # cs)) + 8)
      else (case lazyGroup cs of None \<Rightarrow> None | Some (g, n) \<Rightarrow> Some (c # g, Suc n)))"

definition styleRegex :: "string \<Rightarrow> (string \<times> nat) option" where
  "styleRegex s =
     (if startsWith ''<style>'' s
      then let ws = takeWhile isSpace (drop 7 s)
           in (case lazyGroup (drop (7 + length ws) s) of
                 None \<Rightarrow> None
               | Some (g, n) \<Rightarrow> Some (g, 7 + length ws + n))
      else None)"

text \<open>
  Lines 134-141: the declaration text as one \<^verbatim>\<open>name:value\<close> list joined by
  semicolons. A template literal prints \<^verbatim>\<open>undefined\<close> as that word.
\<close>

definition inlineStyle :: "string \<Rightarrow> string" where
  "inlineStyle styleDeclaration =
     js_join '';''
       (map (\<lambda>prop. case nameValue prop of
                      (name, value) \<Rightarrow>
                        name @ '':'' @ (case value of None \<Rightarrow> ''undefined'' | Some v \<Rightarrow> v))
          (filter (\<lambda>prop. length (js_trim prop) > 0) (js_split CHR '';'' styleDeclaration)))"


definition wordBoundary :: "char \<Rightarrow> char \<Rightarrow> bool" where
  "wordBoundary a b = (isWordChar a \<noteq> isWordChar b)"

fun occursAsWord :: "string \<Rightarrow> char \<Rightarrow> string \<Rightarrow> bool" where
  "occursAsWord name prev [] = False"
| "occursAsWord name prev (c # cs) =
     ((startsWith name (c # cs) \<and> wordBoundary prev c
        \<and> (case drop (length name) (c # cs) of
              [] \<Rightarrow> False
            | d # _ \<Rightarrow> wordBoundary (last (prev # name)) d))
      \<or> occursAsWord name c cs)"

definition classRegexInSvg :: "string \<Rightarrow> string \<Rightarrow> (string \<times> nat) option" where
  "classRegexInSvg className s =
     (if startsWith (''class='' @ [dquote]) s
      then let v = takeWhile (\<lambda>x. x \<noteq> dquote) (drop 7 s);
               r = dropWhile (\<lambda>x. x \<noteq> dquote) (drop 7 s)
           in if r \<noteq> [] \<and> occursAsWord className dquote (v @ [dquote])
              then Some (v, length v + 8)
              else None
      else None)"

text \<open>
  Lines 148-163, the replacement callback: \<open>v\<close> is the value of the matched
  class attribute.
\<close>

definition styleAttr :: "string \<Rightarrow> string \<Rightarrow> string \<Rightarrow> string" where
  "styleAttr className inlineSt v =
     (let existingClasses = splitSpaces v;
          filteredClasses = js_join '' '' (filter (\<lambda>c. c \<noteq> className) existingClasses)
      in if filteredClasses \<noteq> []
         then ''class='' @ [dquote] @ filteredClasses @ [dquote] @ '' style='' @ [dquote] @ inlineSt @ [dquote]
         else ''style='' @ [dquote] @ inlineSt @ [dquote])"

text \<open>One turn of the loop of lines 129-164.\<close>

definition applyClassText :: "string \<Rightarrow> string \<times> string \<Rightarrow> string" where
  "applyClassText modifiedSvg rule =
     (case rule of
        (className, styleDeclaration) \<Rightarrow>
          replaceAll
            (\<lambda>s. case classRegexInSvg className s of
                    None \<Rightarrow> None
                  | Some (v, n) \<Rightarrow> Some (styleAttr className (inlineStyle styleDeclaration) v, n))
            modifiedSvg)"

text \<open>Line 167, \<^verbatim>\<open>/<style>[\s\S]*?<\/style>/g\<close>, and line 170, \<^verbatim>\<open>/<defs>\s*<\/defs>/g\<close>.\<close>

fun untilClose :: "string \<Rightarrow> nat option" where
  "untilClose [] = None"
| "untilClose (c # cs) =
     (if startsWith ''</style>'' (c # cs) then Some 8
      else (case untilClose cs of None \<Rightarrow> None | Some n \<Rightarrow> Some (Suc n)))"

definition styleBlockRegex :: "string \<Rightarrow> (string \<times> nat) option" where
  "styleBlockRegex s =
     (if startsWith ''<style>'' s
      then (case untilClose (drop 7 s) of None \<Rightarrow> None | Some n \<Rightarrow> Some ([], 7 + n))
      else None)"

definition emptyDefsRegex :: "string \<Rightarrow> (string \<times> nat) option" where
  "emptyDefsRegex s =
     (if startsWith ''<defs>'' s \<and> startsWith ''</defs>'' (dropWhile isSpace (drop 6 s))
      then Some ([], 6 + length (takeWhile isSpace (drop 6 s)) + 7)
      else None)"

text \<open>The element vocabulary (lines 174-199, 224-249 and 282-307).\<close>

definition svgElements :: "string list" where
  "svgElements =
     [''svg'', ''circle'', ''ellipse'', ''g'', ''text'', ''tspan'', ''line'', ''path'',
      ''polygon'', ''polyline'', ''rect'', ''use'', ''defs'', ''stop'', ''linearGradient'',
      ''radialGradient'', ''mask'', ''pattern'', ''clipPath'', ''filter'', ''feGaussianBlur'',
      ''feOffset'', ''feBlend'', ''feColorMatrix'']"

text \<open>
  Lines 201-209 and 251-259: \<^verbatim>\<open><el(\s|>)\<close> becomes \<^verbatim>\<open><El$1\<close> and \<^verbatim>\<open></el>\<close>
  becomes \<^verbatim>\<open></El>\<close>, for every name of the vocabulary in turn.
\<close>

definition openTagRegex :: "string \<Rightarrow> string \<Rightarrow> (string \<times> nat) option" where
  "openTagRegex el s =
     (if startsWith (''<'' @ el) s
      then (case drop (Suc (length el)) s of
              [] \<Rightarrow> None
            | c # _ \<Rightarrow>
                if isSpace c \<or> c = CHR ''>'' then Some (''<'' @ capitalize el @ [c], length el + 2)
                else None)
      else None)"

definition closeTagRegex :: "string \<Rightarrow> string \<Rightarrow> (string \<times> nat) option" where
  "closeTagRegex el s =
     (if startsWith (''</'' @ el @ ''>'') s
      then Some (''</'' @ capitalize el @ ''>'', length el + 3)
      else None)"

definition renameTagsText :: "string \<Rightarrow> string" where
  "renameTagsText text =
     foldl (\<lambda>t el. replaceAll (closeTagRegex el) (replaceAll (openTagRegex el) t)) text svgElements"

text \<open>
  The text the fallback writes for the input text \<open>svgContent\<close> (lines 117-268).
  Without a style block, or with a first block whose captured text is empty, the
  input is renamed (line 256) or copied as it is (line 267).
\<close>

definition fallbackText :: "string \<Rightarrow> bool \<Rightarrow> string" where
  "fallbackText svgContent reactNative =
     (case matchFirst styleRegex svgContent of
        Some styleContent \<Rightarrow>
          if styleContent \<noteq> []
          then let m1 = foldl applyClassText svgContent (cssRules styleContent);
                   m2 = replaceAll styleBlockRegex m1;
                   m3 = replaceAll emptyDefsRegex m2
               in if reactNative then renameTagsText m3 else m3
          else if reactNative then renameTagsText svgContent else svgContent
      | None \<Rightarrow> if reactNative then renameTagsText svgContent else svgContent)"

section \<open>The document tree\<close>

text \<open>
  The structured path works on the document that the \<^verbatim>\<open>jsdom\<close> package builds,
  through the DOM interface. The package is not part of the sources; the tree and
  the DOM operations the script calls are modelled here from the data model of the
  specification: an element has a tag name, an ordered mapping from attribute names
  to values and an ordered sequence of child nodes; its class tokens are read from
  the \<^verbatim>\<open>class\<close> attribute and its inline style mapping from the \<^verbatim>\<open>style\<close> attribute;
  other nodes are opaque text. Tag names are compared as whole strings, case
  sensitively (namespaces are not modelled). A document is the list of the nodes
  below the document node.
\<close>

datatype node =
    Element string "(string \<times> string) list" "node list"
  | Text string

type_synonym document = "node list"

fun childNodes :: "node \<Rightarrow> node list" where
  "childNodes (Element t as cs) = cs"
| "childNodes (Text d) = []"

fun isElement :: "node \<Rightarrow> bool" where
  "isElement (Element t as cs) = True"
| "isElement (Text d) = False"

fun tagName :: "node \<Rightarrow> string option" where
  "tagName (Element t as cs) = Some t"
| "tagName (Text d) = None"

fun attributes :: "node \<Rightarrow> (string \<times> string) list" where
  "attributes (Element t as cs) = as"
| "attributes (Text d) = []"

fun withChildNodes :: "(node list \<Rightarrow> node list) \<Rightarrow> node \<Rightarrow> node" where
  "withChildNodes f (Element t as cs) = Element t as (f cs)"
| "withChildNodes f (Text d) = Text d"

text \<open>\<^verbatim>\<open>node.textContent\<close>: the text below the node, in document order.\<close>

fun textContent :: "node \<Rightarrow> string" where
  "textContent (Text d) = d"
| "textContent (Element t as cs) = concat (map textContent cs)"

subsection \<open>Attributes\<close>

definition getAttribute :: "string \<Rightarrow> (string \<times> string) list \<Rightarrow> string option" where
  "getAttribute name as = map_of as name"

text \<open>
  An ordered table: assigning to a key that is present replaces its value where it
  stands, a new key is added at the end. \<^verbatim>\<open>setAttribute\<close> does this to the
  attributes of an element.
\<close>

fun putEntry :: "string \<Rightarrow> 'v \<Rightarrow> (string \<times> 'v) list \<Rightarrow> (string \<times> 'v) list" where
  "putEntry k v [] = [(k, v)]"
| "putEntry k v ((k', w) # kvs) =
     (if k' = k then (k', v) # kvs else (k', w) # putEntry k v kvs)"

definition setAttribute :: "string \<Rightarrow> string \<Rightarrow> (string \<times> string) list \<Rightarrow> (string \<times> string) list" where
  "setAttribute name v as = putEntry name v as"

definition removeAttribute :: "string \<Rightarrow> (string \<times> string) list \<Rightarrow> (string \<times> string) list" where
  "removeAttribute name as = filter (\<lambda>kv. fst kv \<noteq> name) as"

subsection \<open>Class tokens\<close>

text \<open>
  The token set of the \<^verbatim>\<open>class\<close> attribute: its value split at ASCII whitespace
  (tab, line feed, form feed, carriage return, space), without empty tokens, each
  token once, in the order of first occurrence.
\<close>

definition isAsciiSpace :: "char \<Rightarrow> bool" where
  "isAsciiSpace c = (c = CHR 0x09 \<or> c = CHR 0x0A \<or> c = CHR 0x0C \<or> c = CHR 0x0D \<or> c = CHR 0x20)"

definition tokens :: "string \<Rightarrow> string list" where
  "tokens v = filter (\<lambda>t. t \<noteq> []) (splitOn isAsciiSpace v)"

fun orderedSet :: "string list \<Rightarrow> string list" where
  "orderedSet [] = []"
| "orderedSet (t # ts) = t # filter (\<lambda>u. u \<noteq> t) (orderedSet ts)"

definition classList :: "(string \<times> string) list \<Rightarrow> string list" where
  "classList as = (case getAttribute ''class'' as of None \<Rightarrow> [] | Some v \<Rightarrow> orderedSet (tokens v))"

text \<open>
  \<^verbatim>\<open>element.classList.remove(token)\<close>: the token leaves the set and the attribute
  is written back as the remaining tokens joined by single spaces; nothing is
  written when the attribute is absent and the set is empty.
\<close>

definition classListRemove :: "string \<Rightarrow> (string \<times> string) list \<Rightarrow> (string \<times> string) list" where
  "classListRemove token as =
     (let ts = filter (\<lambda>u. u \<noteq> token) (classList as)
      in if getAttribute ''class'' as = None \<and> ts = [] then as
         else setAttribute ''class'' (js_join '' '' ts) as)"

subsection \<open>The inline style mapping\<close>

text \<open>
  Modelled from the spec: the object behind \<^verbatim>\<open>element.style\<close> belongs to
  \<^verbatim>\<open>jsdom\<close> and is not part of the sources. The specification describes it as a mapping
  from property to value that keeps insertion order, where a later write of a
  property replaces the earlier value, held in the \<^verbatim>\<open>style\<close> attribute as
  \<^verbatim>\<open>property:value;\<close> pairs. Reading the attribute splits it at semicolons and each
  piece at its first colon.
\<close>

definition setProperty :: "string \<Rightarrow> string \<Rightarrow> (string \<times> string) list \<Rightarrow> (string \<times> string) list" where
  "setProperty name v ds = putEntry name v ds"

definition cssText :: "(string \<times> string) list \<Rightarrow> string" where
  "cssText ds = concat (map (\<lambda>kv. fst kv @ '':'' @ snd kv @ '';'') ds)"

definition styleDeclaration :: "string \<Rightarrow> string \<times> string" where
  "styleDeclaration piece =
     (js_trim (takeWhile (\<lambda>c. c \<noteq> CHR '':'') piece),
      js_trim (drop 1 (dropWhile (\<lambda>c. c \<noteq> CHR '':'') piece)))"

definition parseStyle :: "string \<Rightarrow> (string \<times> string) list" where
  "parseStyle text =
     foldl (\<lambda>ds kv. setProperty (fst kv) (snd kv) ds) []
       (map styleDeclaration (filter (\<lambda>piece. CHR '':'' \<in> set piece) (js_split CHR '';'' text)))"

definition inlineStyleOf :: "(string \<times> string) list \<Rightarrow> (string \<times> string) list" where
  "inlineStyleOf as = (case getAttribute ''style'' as of None \<Rightarrow> [] | Some v \<Rightarrow> parseStyle v)"

text \<open>
  Line 71, \<^verbatim>\<open>element.style[name] = value\<close>. A piece without a colon gives no value
  (\<^verbatim>\<open>undefined\<close>); assigning it leaves the mapping as it is.
\<close>

definition setStyle :: "string \<Rightarrow> string option \<Rightarrow> (string \<times> string) list \<Rightarrow> (string \<times> string) list" where
  "setStyle name value as =
     (case value of
        None \<Rightarrow> as
      | Some v \<Rightarrow> setAttribute ''style'' (cssText (setProperty name v (inlineStyleOf as))) as)"

subsection \<open>Element handles\<close>

text \<open>
  The script holds elements by reference: \<^verbatim>\<open>querySelectorAll\<close> returns a static
  list of elements, which the loop then changes one by one. In the tree an element
  is held by its path from the document node (the child indices on the way down).
  Between taking such a list and using it the script only rewrites elements in
  place (their attributes, or the element itself by one with the same children at
  the same position), so a path keeps denoting the element it was taken for.
  \<open>elementPaths\<close> lists the elements in document order.
\<close>

type_synonym path = "nat list"

fun pathsFrom :: "nat \<Rightarrow> node list \<Rightarrow> path list" where
  "pathsFrom i [] = []"
| "pathsFrom i (Text d # ns) = pathsFrom (Suc i) ns"
| "pathsFrom i (Element t as cs # ns) =
     [i] # map ((#) i) (pathsFrom 0 cs) @ pathsFrom (Suc i) ns"

definition elementPaths :: "document \<Rightarrow> path list" where
  "elementPaths doc = pathsFrom 0 doc"

fun nodeAt :: "node list \<Rightarrow> path \<Rightarrow> node option" where
  "nodeAt ns [] = None"
| "nodeAt ns [i] = (if i < length ns then Some (ns ! i) else None)"
| "nodeAt ns (i # j # p) = (if i < length ns then nodeAt (childNodes (ns ! i)) (j # p) else None)"

fun updateAt :: "(node \<Rightarrow> node) \<Rightarrow> path \<Rightarrow> node list \<Rightarrow> node list" where
  "updateAt g [] ns = ns"
| "updateAt g [i] ns = (if i < length ns then ns[i := g (ns ! i)] else ns)"
| "updateAt g (i # j # p) ns =
     (if i < length ns then ns[i := withChildNodes (updateAt g (j # p)) (ns ! i)] else ns)"

text \<open>\<^verbatim>\<open>node.remove()\<close>: the node leaves its parent's child list.\<close>

fun removeAt :: "path \<Rightarrow> node list \<Rightarrow> node list" where
  "removeAt [] ns = ns"
| "removeAt [i] ns = take i ns @ drop (Suc i) ns"
| "removeAt (i # j # p) ns =
     (if i < length ns then ns[i := withChildNodes (removeAt (j # p)) (ns ! i)] else ns)"

definition tagAt :: "document \<Rightarrow> path \<Rightarrow> string option" where
  "tagAt doc p = (case nodeAt doc p of None \<Rightarrow> None | Some n \<Rightarrow> tagName n)"

definition attributesAt :: "document \<Rightarrow> path \<Rightarrow> (string \<times> string) list" where
  "attributesAt doc p = (case nodeAt doc p of None \<Rightarrow> [] | Some n \<Rightarrow> attributes n)"

subsection \<open>Errors\<close>

text \<open>
  What the script can raise, by the call that raises: reading the input
  (\<^verbatim>\<open>readFileSync\<close>), loading the document (\<^verbatim>\<open>new JSDOM\<close>), selecting by a text
  that is no selector (\<^verbatim>\<open>querySelectorAll\<close>), writing the output
  (\<^verbatim>\<open>writeFileSync\<close>).
\<close>

datatype error = ReadFailure | ParseFailure | SelectorSyntaxError | WriteFailure

subsection \<open>Selectors\<close>


definition querySelectorAllTag :: "string \<Rightarrow> document \<Rightarrow> path list" where
  "querySelectorAllTag name doc = filter (\<lambda>p. tagAt doc p = Some name) (elementPaths doc)"

definition querySelectorAllClass :: "string \<Rightarrow> document \<Rightarrow> error + path list" where
  "querySelectorAllClass className doc =
     (if className = [] then Inl SelectorSyntaxError
      else Inr (filter (\<lambda>p. className \<in> set (classList (attributesAt doc p))) (elementPaths doc)))"

definition properPrefixes :: "path \<Rightarrow> path list" where
  "properPrefixes p = map (\<lambda>k. take k p) [1..<length p]"

definition querySelectorDefsStyle :: "document \<Rightarrow> path option" where
  "querySelectorDefsStyle doc =
     (case filter (\<lambda>p. tagAt doc p = Some ''style''
                       \<and> list_ex (\<lambda>q. tagAt doc q = Some ''defs'') (properPrefixes p))
             (elementPaths doc) of
        [] \<Rightarrow> None
      | p # _ \<Rightarrow> Some p)"

definition querySelectorTag :: "string \<Rightarrow> document \<Rightarrow> path option" where
  "querySelectorTag name doc = (case querySelectorAllTag name doc of [] \<Rightarrow> None | p # _ \<Rightarrow> Some p)"

section \<open>The structured path (lines 14-107)\<close>

subsection \<open>The sanitizer (lines 19-24)\<close>

text \<open>
  \<^verbatim>\<open>/\s+/g\<close> replaced by an underscore, inside every match of
  \<^verbatim>\<open>/data-name="([^"]+)"/g\<close>.
\<close>

definition spacesRegex :: "string \<Rightarrow> (string \<times> nat) option" where
  "spacesRegex s =
     (case s of
        [] \<Rightarrow> None
      | c # cs \<Rightarrow> if isSpace c then Some (''_'', length (takeWhile isSpace (c # cs))) else None)"

definition dataNameRegex :: "string \<Rightarrow> (string \<times> nat) option" where
  "dataNameRegex s =
     (if startsWith (''data-name='' @ [dquote]) s
      then let p1 = takeWhile (\<lambda>x. x \<noteq> dquote) (drop 11 s);
               r = dropWhile (\<lambda>x. x \<noteq> dquote) (drop 11 s)
           in if p1 \<noteq> [] \<and> r \<noteq> []
              then Some (''data-name='' @ [dquote] @ replaceAll spacesRegex p1 @ [dquote], length p1 + 12)
              else None
      else None)"

definition sanitizedContent :: "string \<Rightarrow> string" where
  "sanitizedContent svgContent = replaceAll dataNameRegex svgContent"

subsection \<open>The class table (lines 44-54)\<close>

text \<open>
  \<open>classStyles\<close> is a plain object used as a table from class name to declaration
  text. Assigning to a key that is present replaces its value and keeps its place;
  a new key is added last. The key \<^verbatim>\<open>__proto__\<close> is the prototype accessor of
  a plain object: assigning a string to it stores nothing. \<^verbatim>\<open>Object.keys\<close> lists
  the keys that are array indices first, in ascending numeric order, then the others
  in the order they were added.
\<close>

definition classTable :: "(string \<times> string) list \<Rightarrow> (string \<times> string) list" where
  "classTable rules =
     foldl (\<lambda>classStyles rule.
              if fst rule = ''__proto__'' then classStyles
              else putEntry (fst rule) (snd rule) classStyles)
       [] rules"

definition classStylesOf :: "string \<Rightarrow> (string \<times> string) list" where
  "classStylesOf styleText = classTable (cssRules styleText)"

definition digitsValue :: "string \<Rightarrow> int" where
  "digitsValue s = foldl (\<lambda>n c. 10 * n + (of_char c - 48)) 0 s"

definition isArrayIndex :: "string \<Rightarrow> bool" where
  "isArrayIndex s =
     (s \<noteq> [] \<and> list_all isDigit s \<and> (s = ''0'' \<or> take 1 s \<noteq> ''0'') \<and> length s \<le> 10
      \<and> digitsValue s < 4294967295)"

definition objectEntries :: "(string \<times> 'v) list \<Rightarrow> (string \<times> 'v) list" where
  "objectEntries obj =
     sort_key (\<lambda>kv. digitsValue (fst kv)) (filter (\<lambda>kv. isArrayIndex (fst kv)) obj)
     @ filter (\<lambda>kv. \<not> isArrayIndex (fst kv)) obj"

subsection \<open>The applier (lines 57-80)\<close>

text \<open>
  The body of the inner \<^verbatim>\<open>forEach\<close> (lines 61-79) for one element: every
  declaration is assigned to the inline style, the class token is removed, and the
  \<^verbatim>\<open>class\<close> attribute is removed when no token is left.
\<close>

definition applyToAttributes :: "string \<Rightarrow> string \<Rightarrow> (string \<times> string) list \<Rightarrow> (string \<times> string) list" where
  "applyToAttributes className decl as =
     (let as1 = foldl (\<lambda>a nv. setStyle (fst nv) (snd nv) a) as (declarations decl);
          as2 = classListRemove className as1
      in if length (classList as2) = 0 then removeAttribute ''class'' as2 else as2)"

definition applyToElement :: "string \<Rightarrow> string \<Rightarrow> node \<Rightarrow> node" where
  "applyToElement className decl el =
     (case el of
        Text d \<Rightarrow> Text d
      | Element t as cs \<Rightarrow> Element t (applyToAttributes className decl as) cs)"

text \<open>
  One turn of the outer \<^verbatim>\<open>forEach\<close> (lines 57-80): the elements of the class are
  listed first (line 59, which raises when the name is empty), then changed one
  after the other.
\<close>

definition applyClass :: "document \<Rightarrow> string \<times> string \<Rightarrow> error + document" where
  "applyClass doc entry =
     (case querySelectorAllClass (fst entry) doc of
        Inl e \<Rightarrow> Inl e
      | Inr elements \<Rightarrow>
          Inr (foldl (\<lambda>d p. updateAt (applyToElement (fst entry) (snd entry)) p d) doc elements))"

text \<open>
  The outer \<^verbatim>\<open>forEach\<close> over the keys of the table: a turn that raises ends the
  loop, with the document as the turns before have left it.
\<close>

fun forEachClass :: "document \<Rightarrow> (string \<times> string) list \<Rightarrow> error + document" where
  "forEachClass doc [] = Inr doc"
| "forEachClass doc (entry # entries) =
     (case applyClass doc entry of
        Inl e \<Rightarrow> Inl e
      | Inr doc' \<Rightarrow> forEachClass doc' entries)"

definition applyClassStyles :: "(string \<times> string) list \<Rightarrow> document \<Rightarrow> error + document" where
  "applyClassStyles classStyles doc = forEachClass doc (objectEntries classStyles)"

subsection \<open>Removing the style element and an empty defs (lines 82-89)\<close>

text \<open>
  \<^verbatim>\<open>defsElement.children.length\<close> counts the element children of the first
  \<^verbatim>\<open>defs\<close> element.
\<close>

definition pruneDefs :: "document \<Rightarrow> document" where
  "pruneDefs doc =
     (case querySelectorTag ''defs'' doc of
        None \<Rightarrow> doc
      | Some dp \<Rightarrow>
          (case nodeAt doc dp of
             None \<Rightarrow> doc
           | Some defsElement \<Rightarrow>
               if length (filter isElement (childNodes defsElement)) = 0 then removeAt dp doc
               else doc))"

text \<open>Lines 42-90, for the style element found at \<open>sp\<close>.\<close>

definition inlineStyles :: "path \<Rightarrow> document \<Rightarrow> error + document" where
  "inlineStyles sp doc =
     (let styleText = (case nodeAt doc sp of None \<Rightarrow> [] | Some styleElement \<Rightarrow> textContent styleElement);
          classStyles = classStylesOf styleText
      in case applyClassStyles classStyles doc of
           Inl e \<Rightarrow> Inl e
         | Inr doc1 \<Rightarrow> Inr (pruneDefs (removeAt sp doc1)))"

subsection \<open>The tag renamer (lines 280-333)\<close>

text \<open>
  Lines 319-322 copy the attributes one by one onto the new element; lines 325-327
  move the children, first child first, to the end of the new element's children.
\<close>

fun moveChildren :: "node list \<Rightarrow> node list \<Rightarrow> node list" where
  "moveChildren [] dst = dst"
| "moveChildren (c # cs) dst = moveChildren cs (dst @ [c])"

definition copyAttributes :: "(string \<times> string) list \<Rightarrow> (string \<times> string) list" where
  "copyAttributes as = foldl (\<lambda>new attr. setAttribute (fst attr) (snd attr) new) [] as"

definition renamedElement :: "string \<Rightarrow> node \<Rightarrow> node" where
  "renamedElement elementName el =
     (case el of
        Text d \<Rightarrow> Text d
      | Element t as cs \<Rightarrow> Element (capitalize elementName) (copyAttributes as) (moveChildren cs []))"

text \<open>
  One turn of the outer loop (lines 310-332): the elements with the tag are listed,
  then each is replaced, at its place under its parent, by the new element.
\<close>

definition renameTag :: "document \<Rightarrow> string \<Rightarrow> document" where
  "renameTag doc elementName =
     foldl (\<lambda>d p. updateAt (renamedElement elementName) p d) doc
       (querySelectorAllTag elementName doc)"

definition convertToReactNativeSvg :: "document \<Rightarrow> document" where
  "convertToReactNativeSvg doc = foldl renameTag doc svgElements"

subsection \<open>Files and the whole function (lines 13-274)\<close>

text \<open>
  The file system is a table from paths to contents together with the paths that
  can be written. Reading a missing file and writing where it is not allowed raise.
  The parser and the serializer of \<^verbatim>\<open>jsdom\<close> are parameters: \<open>parse\<close> gives
  \<open>None\<close> where the package raises.
\<close>

record fsys =
  files :: "string \<Rightarrow> string option"
  writable :: "string \<Rightarrow> bool"

record jsdom =
  parse :: "string \<Rightarrow> document option"
  serialize :: "document \<Rightarrow> string"

definition readFileSync :: "fsys \<Rightarrow> string \<Rightarrow> error + string" where
  "readFileSync fs p = (case files fs p of None \<Rightarrow> Inl ReadFailure | Some c \<Rightarrow> Inr c)"

definition writeFileSync :: "fsys \<Rightarrow> string \<Rightarrow> string \<Rightarrow> error + fsys" where
  "writeFileSync fs p c =
     (if writable fs p then Inr (fs\<lparr>files := (files fs)(p := Some c)\<rparr>) else Inl WriteFailure)"

text \<open>
  The body of the outer \<^verbatim>\<open>try\<close> (lines 15-107). Line 37 returns without writing
  when no style element is found and no renaming is asked for.
\<close>

definition structuredPipeline :: "jsdom \<Rightarrow> fsys \<Rightarrow> string \<Rightarrow> string \<Rightarrow> bool \<Rightarrow> error + fsys" where
  "structuredPipeline jd fs inputPath outputPath reactNative =
     (case readFileSync fs inputPath of
        Inl e \<Rightarrow> Inl e
      | Inr svgContent \<Rightarrow>
          (case parse jd (sanitizedContent svgContent) of
             None \<Rightarrow> Inl ParseFailure
           | Some doc \<Rightarrow>
               (case querySelectorDefsStyle doc of
                  None \<Rightarrow>
                    if \<not> reactNative then Inr fs
                    else writeFileSync fs outputPath (serialize jd (convertToReactNativeSvg doc))
                | Some sp \<Rightarrow>
                    (case inlineStyles sp doc of
                       Inl e \<Rightarrow> Inl e
                     | Inr doc1 \<Rightarrow>
                         let doc2 = (if reactNative then convertToReactNativeSvg doc1 else doc1)
                         in writeFileSync fs outputPath (serialize jd doc2)))))"

text \<open>
  The body of the inner \<^verbatim>\<open>try\<close> (lines 113-269): the input is read again and
  the fallback text is written (line 267 copies the file, which writes the text
  that was read).
\<close>

definition fallbackPipeline :: "fsys \<Rightarrow> string \<Rightarrow> string \<Rightarrow> bool \<Rightarrow> error + fsys" where
  "fallbackPipeline fs inputPath outputPath reactNative =
     (case readFileSync fs inputPath of
        Inl e \<Rightarrow> Inl e
      | Inr svgContent \<Rightarrow> writeFileSync fs outputPath (fallbackText svgContent reactNative))"

text \<open>
  The function: the file system it leaves. An error of the structured path is
  caught at line 108 and the fallback runs; an error of the fallback is caught at
  line 270 and only logged.
\<close>

definition convertSvgStylesToInline :: "jsdom \<Rightarrow> fsys \<Rightarrow> string \<Rightarrow> string \<Rightarrow> bool \<Rightarrow> fsys" where
  "convertSvgStylesToInline jd fs inputPath outputPath reactNative =
     (case structuredPipeline jd fs inputPath outputPath reactNative of
        Inr fs' \<Rightarrow> fs'
      | Inl e \<Rightarrow>
          (case fallbackPipeline fs inputPath outputPath reactNative of
             Inr fs' \<Rightarrow> fs'
           | Inl e' \<Rightarrow> fs))"

subsection \<open>A loader and a serializer for plain markup\<close>

text \<open>
  Modelled from the spec: the document loader and the serializer are those of
  \<^verbatim>\<open>jsdom\<close>, which is not part of the sources. The specification asks of the loader a
  tree of elements with ordered attributes and ordered children, or a failure when
  no tree can be built, and of the serializer the text of the final tree. The
  instance below reads markup made of start tags with quoted attributes, end tags,
  empty-element tags and text; it fails on anything else, on tags that do not
  nest, on a repeated attribute and unless there is exactly one root element. It
  writes an element without children as an empty-element tag. Character
  references, comments and processing instructions are not modelled.
\<close>

datatype token =
    Open string "(string \<times> string) list" bool
  | Close string
  | Chars string

definition isXmlSpace :: "char \<Rightarrow> bool" where
  "isXmlSpace c = (c = CHR 0x20 \<or> c = CHR 0x09 \<or> c = CHR 0x0D \<or> c = CHR 0x0A)"

definition isNameChar :: "char \<Rightarrow> bool" where
  "isNameChar c = (isWordChar c \<or> c = CHR ''-'' \<or> c = CHR ''.'' \<or> c = CHR '':'')"

fun lexAttributes :: "string \<Rightarrow> ((string \<times> string) list \<times> bool \<times> nat) option" where
  "lexAttributes [] = None"
| "lexAttributes (c # cs) =
     (if isXmlSpace c
      then (case lexAttributes cs of None \<Rightarrow> None | Some (as, sc, n) \<Rightarrow> Some (as, sc, Suc n))
      else if c = CHR ''>'' then Some ([], False, 1)
      else if c = CHR ''/'' then (if startsWith ''>'' cs then Some ([], True, 2) else None)
      else
        let name = takeWhile isNameChar (c # cs)
        in (case drop (length name) (c # cs) of
              e # q # r \<Rightarrow>
                if name \<noteq> [] \<and> e = CHR ''='' \<and> (q = dquote \<or> q = CHR 0x27)
                then let v = takeWhile (\<lambda>x. x \<noteq> q) r
                     in if dropWhile (\<lambda>x. x \<noteq> q) r = [] then None
                        else (case lexAttributes (drop (length name + length v + 2) cs) of
                                None \<Rightarrow> None
                              | Some (as, sc, n) \<Rightarrow>
                                  if map_of as name \<noteq> None then None
                                  else Some ((name, v) # as, sc, n + length name + length v + 3))
                else None
            | _ \<Rightarrow> None))"

definition lexTag :: "string \<Rightarrow> (token \<times> nat) option" where
  "lexTag s =
     (if startsWith ''/'' s
      then let name = takeWhile isNameChar (drop 1 s);
               ws = takeWhile isXmlSpace (drop (1 + length name) s)
           in if name \<noteq> [] \<and> startsWith ''>'' (drop (1 + length name + length ws) s)
              then Some (Close name, length name + length ws + 2)
              else None
      else let name = takeWhile isNameChar s
           in if name = [] then None
              else (case lexAttributes (drop (length name) s) of
                      None \<Rightarrow> None
                    | Some (as, sc, n) \<Rightarrow> Some (Open name as sc, length name + n)))"

fun tokenize :: "string \<Rightarrow> token list option" where
  "tokenize [] = Some []"
| "tokenize (c # cs) =
     (if c = CHR ''<''
      then (case lexTag cs of
              None \<Rightarrow> None
            | Some (tok, n) \<Rightarrow>
                (case tokenize (drop n cs) of None \<Rightarrow> None | Some ts \<Rightarrow> Some (tok # ts)))
      else let t = takeWhile (\<lambda>x. x \<noteq> CHR ''<'') cs
           in (case tokenize (drop (length t) cs) of
                 None \<Rightarrow> None
               | Some ts \<Rightarrow> Some (Chars (c # t) # ts)))"

text \<open>
  The open elements are kept on a stack, innermost first, each with the children
  read so far in reverse; \<open>fin\<close> holds the finished nodes below the document
  node, in reverse.
\<close>

fun addNode :: "node \<Rightarrow> (string \<times> (string \<times> string) list \<times> node list) list \<Rightarrow> node list
    \<Rightarrow> (string \<times> (string \<times> string) list \<times> node list) list \<times> node list" where
  "addNode n [] fin = ([], n # fin)"
| "addNode n ((t, as, ks) # st) fin = ((t, as, n # ks) # st, fin)"

fun buildTree :: "token list \<Rightarrow> (string \<times> (string \<times> string) list \<times> node list) list \<Rightarrow> node list
    \<Rightarrow> node list option" where
  "buildTree [] st fin = (if st = [] then Some (rev fin) else None)"
| "buildTree (Chars s # ts) st fin =
     (if st = [] then (if list_all isXmlSpace s then buildTree ts st fin else None)
      else (case addNode (Text s) st fin of (st', fin') \<Rightarrow> buildTree ts st' fin'))"
| "buildTree (Open t as sc # ts) st fin =
     (if sc then (case addNode (Element t as []) st fin of (st', fin') \<Rightarrow> buildTree ts st' fin')
      else buildTree ts ((t, as, []) # st) fin)"
| "buildTree (Close t # ts) [] fin = None"
| "buildTree (Close t # ts) ((t', as, ks) # st) fin =
     (if t = t'
      then (case addNode (Element t as (rev ks)) st fin of (st', fin') \<Rightarrow> buildTree ts st' fin')
      else None)"

definition parseXml :: "string \<Rightarrow> document option" where
  "parseXml s =
     (case tokenize s of
        None \<Rightarrow> None
      | Some ts \<Rightarrow>
          (case buildTree ts [] [] of
             Some [Element t as cs] \<Rightarrow> Some [Element t as cs]
           | _ \<Rightarrow> None))"

fun serializeNode :: "node \<Rightarrow> string" where
  "serializeNode (Text d) = d"
| "serializeNode (Element t as cs) =
     ''<'' @ t
     @ concat (map (\<lambda>kv. '' '' @ fst kv @ ''='' @ [dquote] @ snd kv @ [dquote]) as)
     @ (if cs = [] then ''/>''
        else ''>'' @ concat (map serializeNode cs) @ ''</'' @ t @ ''>'')"

definition serializeXml :: "document \<Rightarrow> string" where
  "serializeXml doc = concat (map serializeNode doc)"

definition plainMarkup :: jsdom where
  "plainMarkup = \<lparr>parse = parseXml, serialize = serializeXml\<rparr>"

section \<open>Notions used in the statements\<close>

text \<open>\<open>occursIn p s\<close>: the text \<open>p\<close> occurs somewhere in \<open>s\<close>.\<close>

fun occursIn :: "string \<Rightarrow> string \<Rightarrow> bool" where
  "occursIn p [] = (p = [])"
| "occursIn p (c # cs) = (startsWith p (c # cs) \<or> occursIn p cs)"

text \<open>
  \<open>mapElements k\<close> rewrites the tag and the attributes of every element by \<open>k\<close>
  and keeps everything else: the text nodes, the children of every element and
  their order.
\<close>

fun mapElements :: "(string \<times> (string \<times> string) list \<Rightarrow> string \<times> (string \<times> string) list) \<Rightarrow> node \<Rightarrow> node" where
  "mapElements k (Text d) = Text d"
| "mapElements k (Element t as cs) =
     Element (fst (k (t, as))) (snd (k (t, as))) (map (mapElements k) cs)"

text \<open>
  The same rewriting of one element only, and the paths of the elements that
  satisfy a condition on tag and attributes, in document order.
\<close>

fun onElement :: "(string \<times> (string \<times> string) list \<Rightarrow> string \<times> (string \<times> string) list) \<Rightarrow> node \<Rightarrow> node" where
  "onElement k (Text d) = Text d"
| "onElement k (Element t as cs) = Element (fst (k (t, as))) (snd (k (t, as))) cs"

fun selected :: "(string \<times> (string \<times> string) list \<Rightarrow> bool) \<Rightarrow> node option \<Rightarrow> bool" where
  "selected P None = False"
| "selected P (Some (Text d)) = False"
| "selected P (Some (Element t as cs)) = P (t, as)"

fun selectedPaths :: "(string \<times> (string \<times> string) list \<Rightarrow> bool) \<Rightarrow> nat \<Rightarrow> node list \<Rightarrow> path list" where
  "selectedPaths P i [] = []"
| "selectedPaths P i (Text d # ns) = selectedPaths P (Suc i) ns"
| "selectedPaths P i (Element t as cs # ns) =
     (if P (t, as) then [[i]] else []) @ map ((#) i) (selectedPaths P 0 cs)
     @ selectedPaths P (Suc i) ns"

text \<open>The attribute lists of all elements of a document, in document order.\<close>

fun attributeLists :: "node \<Rightarrow> (string \<times> string) list list" where
  "attributeLists (Text d) = []"
| "attributeLists (Element t as cs) = as # concat (map attributeLists cs)"

text \<open>Every element of the document has each attribute name at most once.\<close>

fun distinctAttributes :: "node \<Rightarrow> bool" where
  "distinctAttributes (Text d) = True"
| "distinctAttributes (Element t as cs) = (distinct (map fst as) \<and> list_all distinctAttributes cs)"

text \<open>
  What the renamer is to do to a tag, and the number of child nodes of the node at
  a path.
\<close>

definition renamedTag :: "string \<Rightarrow> string" where
  "renamedTag t = (if t \<in> set svgElements then capitalize t else t)"

definition childCountAt :: "document \<Rightarrow> path \<Rightarrow> nat" where
  "childCountAt doc p = (case nodeAt doc p of None \<Rightarrow> 0 | Some n \<Rightarrow> length (childNodes n))"




text \<open>One turn of the applier's outer loop, seen from one element.\<close>

definition applyEntry :: "(string \<times> string) list \<Rightarrow> string \<times> string \<Rightarrow> (string \<times> string) list" where
  "applyEntry as e =
     (if fst e \<in> set (classList as) then applyToAttributes (fst e) (snd e) as else as)"

text \<open>\<open>mapAttributes F\<close> rewrites the attributes of every element by \<open>F\<close>.\<close>

definition mapAttributes :: "((string \<times> string) list \<Rightarrow> (string \<times> string) list) \<Rightarrow> node \<Rightarrow> node" where
  "mapAttributes F = mapElements (\<lambda>x. (fst x, F (snd x)))"

section \<open>Test inputs\<close>

text \<open>A file system that holds one input file and lets every path be written.\<close>

definition oneFile :: "string \<Rightarrow> string \<Rightarrow> fsys" where
  "oneFile name content = \<lparr>files = (\<lambda>p. if p = name then Some content else None), writable = (\<lambda>p. True)\<rparr>"



text \<open>A document without a style element.\<close>

definition noStyleInput :: string where
  \<open>noStyleInput = ''<svg><path d="M0 0"/></svg>''\<close>

text \<open>
  A style value with a colon of its own, in a well-formed document.
\<close>

definition urlInput :: string where
  \<open>urlInput = ''<svg><defs><style>.a{fill:url(http://x/p.svg#g);stroke:blue}</style></defs><path class="a"/></svg>''\<close>

text \<open>
  An element with two styled classes, in a text that is not well-formed (the
  \<^verbatim>\<open>path\<close> element is never closed), so that the loader fails.
\<close>

definition twoClassInput :: string where
  \<open>twoClassInput = ''<svg><style>.a{fill:red}.b{stroke:blue}</style><path class="a b"></svg>''\<close>




text \<open>
  One class declared twice, and an element with two classes that both declare
  \<^verbatim>\<open>fill\<close>.
\<close>

definition twiceDeclared :: string where
  \<open>twiceDeclared = ''<svg><defs><style>.a{fill:red}.a{stroke:blue}</style></defs><path class="a"/></svg>''\<close>





section \<open>Scanning a text\<close>



lemma not_occursIn_Cons: "\<not> occursIn p (c # cs) \<Longrightarrow> \<not> startsWith p (c # cs) \<and> \<not> occursIn p cs"
  by simp









lemma matchAll_match:
  "m s = Some (g, n) \<Longrightarrow> s \<noteq> [] \<Longrightarrow> 0 < n \<Longrightarrow> matchAll m s = g # matchAll m (drop n s)"
  by (cases s; cases n) simp_all











section \<open>The sanitizer\<close>






lemma spacesRegex_None: "s = [] \<or> \<not> isSpace (hd s) \<Longrightarrow> spacesRegex s = None"
  by (cases s) (simp_all add: spacesRegex_def)




section \<open>Loops over a static list of elements\<close>

text \<open>
  The loops of the applier and of the renamer take a list of elements first and
  then rewrite each element of the list where it stands. When the rewriting only
  touches the tag and the attributes of the element, the loop comes to the same as
  rewriting, everywhere in the tree, the elements that satisfied the condition when
  the list was taken (\<open>snapshot_loop\<close>).
\<close>

lemma selectedPaths_nonempty: "[] \<notin> set (selectedPaths P i ns)"
  by (induction P i ns rule: selectedPaths.induct) auto

lemma pathsFrom_nonempty: "[] \<notin> set (pathsFrom i ns)"
  by (induction i ns rule: pathsFrom.induct) auto

lemma nodeAt_under:
  "q \<noteq> [] \<Longrightarrow> nodeAt (pre @ n # ns) (length pre # q) = nodeAt (childNodes n) q"
  by (cases q) simp_all

lemma nodeAt_here: "nodeAt (pre @ n # ns) [length pre] = Some n"
  by simp

lemma filter_paths_selected:
  "\<forall>pre. length pre = i \<longrightarrow>
     filter (\<lambda>p. selected P (nodeAt (pre @ ns) p)) (pathsFrom i ns) = selectedPaths P i ns"
proof (induction i ns rule: pathsFrom.induct)
  case (1 i)
  then show ?case by simp
next
  case (2 i d ns)
  show ?case
  proof (intro allI impI)
    fix pre :: "node list" assume l: "length pre = i"
    then have "length (pre @ [Text d]) = Suc i" by simp
    with 2 have "filter (\<lambda>p. selected P (nodeAt ((pre @ [Text d]) @ ns) p)) (pathsFrom (Suc i) ns)
                   = selectedPaths P (Suc i) ns" by blast
    then show "filter (\<lambda>p. selected P (nodeAt (pre @ Text d # ns) p)) (pathsFrom i (Text d # ns))
                 = selectedPaths P i (Text d # ns)" by simp
  qed
next
  case (3 i t as cs ns)
  show ?case
  proof (intro allI impI)
    fix pre :: "node list" assume l: "length pre = i"
    let ?doc = "pre @ Element t as cs # ns"
    have a: "selected P (nodeAt ?doc [i]) = P (t, as)" unfolding l [symmetric] by simp
    have "filter (\<lambda>p. selected P (nodeAt ?doc p)) (map ((#) i) (pathsFrom 0 cs))
            = map ((#) i) (filter (\<lambda>q. selected P (nodeAt ?doc (i # q))) (pathsFrom 0 cs))"
      by (simp add: filter_map comp_def)
    also have "filter (\<lambda>q. selected P (nodeAt ?doc (i # q))) (pathsFrom 0 cs)
                 = filter (\<lambda>q. selected P (nodeAt ([] @ cs) q)) (pathsFrom 0 cs)"
    proof (rule filter_cong [OF refl])
      fix q assume "q \<in> set (pathsFrom 0 cs)"
      then have "q \<noteq> []" using pathsFrom_nonempty by metis
      then show "selected P (nodeAt ?doc (i # q)) = selected P (nodeAt ([] @ cs) q)"
        using nodeAt_under [of q pre "Element t as cs" ns] l by simp
    qed
    also have "\<dots> = selectedPaths P 0 cs" using 3(1) [rule_format, of "[]"] by simp
    finally have b: "filter (\<lambda>p. selected P (nodeAt ?doc p)) (map ((#) i) (pathsFrom 0 cs))
                       = map ((#) i) (selectedPaths P 0 cs)" .
    have "length (pre @ [Element t as cs]) = Suc i" using l by simp
    with 3(2) have "filter (\<lambda>p. selected P (nodeAt ((pre @ [Element t as cs]) @ ns) p)) (pathsFrom (Suc i) ns)
                   = selectedPaths P (Suc i) ns" by blast
    then have c: "filter (\<lambda>p. selected P (nodeAt ?doc p)) (pathsFrom (Suc i) ns) = selectedPaths P (Suc i) ns"
      by simp
    show "filter (\<lambda>p. selected P (nodeAt ?doc p)) (pathsFrom i (Element t as cs # ns))
            = selectedPaths P i (Element t as cs # ns)"
      using a b c by simp
  qed
qed

lemma updateAt_here:
  "updateAt g [length pre] (pre @ n # ns) = pre @ g n # ns"
  by simp

lemma updateAt_under:
  "q \<noteq> [] \<Longrightarrow> updateAt g (length pre # q) (pre @ Element t as cs # ns) = pre @ Element t as (updateAt g q cs) # ns"
  by (cases q) simp_all

lemma foldl_updateAt_under:
  "[] \<notin> set qs \<Longrightarrow>
   foldl (\<lambda>d p. updateAt g p d) (pre @ Element t as cs # ns) (map ((#) (length pre)) qs)
     = pre @ Element t as (foldl (\<lambda>d p. updateAt g p d) cs qs) # ns"
proof (induction qs arbitrary: cs)
  case Nil
  then show ?case by simp
next
  case (Cons q qs)
  then have "q \<noteq> []" by auto
  then show ?case using Cons updateAt_under [of q g pre t as cs ns] by simp
qed

lemma foldl_updateAt_selected:
  "\<forall>pre. length pre = i \<longrightarrow>
     foldl (\<lambda>d p. updateAt (onElement k) p d) (pre @ ns) (selectedPaths P i ns)
       = pre @ map (mapElements (\<lambda>x. if P x then k x else x)) ns"
proof (induction P i ns rule: selectedPaths.induct)
  case (1 P i)
  then show ?case by simp
next
  case (2 P i d ns)
  show ?case
  proof (intro allI impI)
    fix pre :: "node list" assume l: "length pre = i"
    then have "length (pre @ [Text d]) = Suc i" by simp
    with 2 have "foldl (\<lambda>d p. updateAt (onElement k) p d) ((pre @ [Text d]) @ ns) (selectedPaths P (Suc i) ns)
                   = (pre @ [Text d]) @ map (mapElements (\<lambda>x. if P x then k x else x)) ns" by blast
    then show "foldl (\<lambda>d p. updateAt (onElement k) p d) (pre @ Text d # ns) (selectedPaths P i (Text d # ns))
                 = pre @ map (mapElements (\<lambda>x. if P x then k x else x)) (Text d # ns)" by simp
  qed
next
  case (3 P i t as cs ns)
  show ?case
  proof (intro allI impI)
    fix pre :: "node list" assume l: "length pre = i"
    let ?f = "\<lambda>d p. updateAt (onElement k) p d"
    let ?k = "\<lambda>x. if P x then k x else x"
    let ?t = "fst (?k (t, as))" and ?as = "snd (?k (t, as))"
    have s1: "foldl ?f (pre @ Element t as cs # ns) (if P (t, as) then [[i]] else [])
                = pre @ Element ?t ?as cs # ns"
      unfolding l [symmetric] by simp
    have s2: "foldl ?f (pre @ Element ?t ?as cs # ns) (map ((#) i) (selectedPaths P 0 cs))
                = pre @ Element ?t ?as (foldl ?f cs (selectedPaths P 0 cs)) # ns"
      using foldl_updateAt_under [OF selectedPaths_nonempty, of "onElement k" pre ?t ?as cs ns P 0 cs] l
      by simp
    have s3: "foldl ?f cs (selectedPaths P 0 cs) = map (mapElements ?k) cs"
      using 3(1) [rule_format, of "[]"] by simp
    let ?e = "Element ?t ?as (map (mapElements ?k) cs)"
    have "length (pre @ [?e]) = Suc i" using l by simp
    with 3(2) have "foldl ?f ((pre @ [?e]) @ ns) (selectedPaths P (Suc i) ns)
                      = (pre @ [?e]) @ map (mapElements ?k) ns" by blast
    then have s4: "foldl ?f (pre @ ?e # ns) (selectedPaths P (Suc i) ns)
                     = pre @ ?e # map (mapElements ?k) ns" by simp
    show "foldl ?f (pre @ Element t as cs # ns) (selectedPaths P i (Element t as cs # ns))
            = pre @ map (mapElements ?k) (Element t as cs # ns)"
      by (simp only: selectedPaths.simps foldl_append s1 s2 s3 s4 list.map mapElements.simps)
  qed
qed

lemma snapshot_loop:
  "foldl (\<lambda>d p. updateAt (onElement k) p d) doc
     (filter (\<lambda>p. selected P (nodeAt doc p)) (elementPaths doc))
   = map (mapElements (\<lambda>x. if P x then k x else x)) doc"
  using filter_paths_selected [of 0 P doc] foldl_updateAt_selected [of 0 k doc P]
  by (simp add: elementPaths_def)

section \<open>Rewriting tags and attributes keeps the shape\<close>

lemma mapElements_comp: "mapElements k2 (mapElements k1 n) = mapElements (\<lambda>x. k2 (k1 x)) n"
  by (induction n) simp_all

lemma mapElements_cong:
  "(\<And>as. as \<in> set (attributeLists n) \<Longrightarrow> (\<forall>t. k1 (t, as) = k2 (t, as))) \<Longrightarrow> mapElements k1 n = mapElements k2 n"
  by (induction n) auto

lemma pathsFrom_mapElements: "pathsFrom i (map (mapElements k) ns) = pathsFrom i ns"
proof (induction i ns rule: pathsFrom.induct)
  case (3 i t as cs ns)
  then show ?case by simp
qed simp_all

lemma elementPaths_mapElements: "elementPaths (map (mapElements k) doc) = elementPaths doc"
  by (simp add: elementPaths_def pathsFrom_mapElements)

lemma childNodes_mapElements: "childNodes (mapElements k n) = map (mapElements k) (childNodes n)"
  by (cases n) simp_all

lemma nodeAt_mapElements: "nodeAt (map (mapElements k) ns) p = map_option (mapElements k) (nodeAt ns p)"
proof (induction ns p rule: nodeAt.induct)
  case (3 ns i j p)
  then show ?case by (simp add: childNodes_mapElements)
qed simp_all

section \<open>Ordered tables\<close>

lemma putEntry_new: "k \<notin> fst ` set al \<Longrightarrow> putEntry k v al = al @ [(k, v)]"
  by (induction al) auto


lemma keys_putEntry: "fst ` set (putEntry k v al) = insert k (fst ` set al)"
proof (induction al)
  case Nil
  then show ?case by simp
next
  case (Cons a al)
  obtain k' w where a: "a = (k', w)" by (cases a)
  show ?case using Cons by (cases "k' = k") (simp_all add: a insert_commute)
qed




lemma putEntry_twice: "putEntry k v (putEntry k w al) = putEntry k v al"
  by (induction al) auto

lemma putEntry_commute:
  "k \<noteq> k' \<Longrightarrow> k \<in> fst ` set al \<Longrightarrow> putEntry k v (putEntry k' w al) = putEntry k' w (putEntry k v al)"
proof (induction al)
  case Nil
  then show ?case by simp
next
  case (Cons a al)
  obtain j u where a: "a = (j, u)" by (cases a)
  show ?case
  proof (cases "j = k")
    case True
    with Cons.prems show ?thesis by (simp add: a)
  next
    case False
    with Cons.prems have "k \<in> fst ` set al" by (auto simp: a)
    with Cons False show ?thesis by (simp add: a)
  qed
qed

lemma put_loop:
  "distinct (map fst (acc @ al)) \<Longrightarrow>
   foldl (\<lambda>acc kv. putEntry (fst kv) (snd kv) acc) acc al = acc @ al"
proof (induction al arbitrary: acc)
  case Nil
  then show ?case by simp
next
  case (Cons a al)
  then have "fst a \<notin> fst ` set acc" by auto
  then have "putEntry (fst a) (snd a) acc = acc @ [a]" by (simp add: putEntry_new)
  moreover have "distinct (map fst ((acc @ [a]) @ al))" using Cons.prems by simp
  ultimately show ?case using Cons.IH [of "acc @ [a]"] by simp
qed

section \<open>Splitting and trimming\<close>









subsection \<open>Trimming\<close>





section \<open>The inline style mapping and its text\<close>
















section \<open>Class tokens and the body of the applier's loop\<close>






lemma classList_Nil: "classList [] = []"
  by (simp add: classList_def getAttribute_def)














section \<open>The applier, seen from one element\<close>















section \<open>The applier on the document\<close>

lemma applyToElement_onElement:
  "applyToElement className decl = onElement (\<lambda>x. (fst x, applyToAttributes className decl (snd x)))"
proof
  fix n show "applyToElement className decl n = onElement (\<lambda>x. (fst x, applyToAttributes className decl (snd x))) n"
    by (cases n) (simp_all add: applyToElement_def)
qed

lemma class_selected:
  "(c \<in> set (classList (attributesAt doc p))) = selected (\<lambda>x. c \<in> set (classList (snd x))) (nodeAt doc p)"
proof (cases "nodeAt doc p")
  case None
  then show ?thesis by (simp add: attributesAt_def classList_Nil)
next
  case (Some n)
  then show ?thesis by (cases n) (simp_all add: attributesAt_def classList_Nil)
qed

lemma mapAttributes_simps [simp]:
  "mapAttributes F (Text d) = Text d"
  "mapAttributes F (Element t as cs) = Element t (F as) (map (mapAttributes F) cs)"
  by (simp_all add: mapAttributes_def)



lemma applyClass_map:
  assumes "fst e \<noteq> []"
  shows "applyClass doc e = Inr (map (mapAttributes (\<lambda>as. applyEntry as e)) doc)"
proof -
  have eq: "(\<lambda>x. if fst e \<in> set (classList (snd x)) then (fst x, applyToAttributes (fst e) (snd e) (snd x)) else x)
          = (\<lambda>x. (fst x, applyEntry (snd x) e))"
    by (rule ext) (simp add: applyEntry_def)
  have "foldl (\<lambda>d p. updateAt (applyToElement (fst e) (snd e)) p d) doc
          (filter (\<lambda>p. fst e \<in> set (classList (attributesAt doc p))) (elementPaths doc))
          = map (mapElements (\<lambda>x. if fst e \<in> set (classList (snd x))
                                    then (fst x, applyToAttributes (fst e) (snd e) (snd x)) else x)) doc"
    unfolding applyToElement_onElement class_selected
    by (rule snapshot_loop)
  then have "foldl (\<lambda>d p. updateAt (applyToElement (fst e) (snd e)) p d) doc
          (filter (\<lambda>p. fst e \<in> set (classList (attributesAt doc p))) (elementPaths doc))
          = map (mapAttributes (\<lambda>as. applyEntry as e)) doc"
    by (simp only: eq mapAttributes_def)
  then show ?thesis
    using assms by (simp add: applyClass_def querySelectorAllClass_def)
qed

lemma applyClass_raises: "fst e = [] \<Longrightarrow> applyClass doc e = Inl SelectorSyntaxError"
  by (simp add: applyClass_def querySelectorAllClass_def)


lemma applier_raises:
  "[] \<in> fst ` set es \<Longrightarrow> forEachClass doc es = Inl SelectorSyntaxError"
proof (induction es arbitrary: doc)
  case Nil
  then show ?case by simp
next
  case (Cons e es)
  show ?case
  proof (cases "fst e = []")
    case True
    then show ?thesis by (simp add: applyClass_raises)
  next
    case False
    then have "[] \<in> fst ` set es" using Cons.prems by auto
    then show ?thesis using Cons.IH by (simp add: applyClass_map [OF False])
  qed
qed









subsection \<open>Attributes other than class and style\<close>



subsection \<open>Removing nodes\<close>










lemma inlineStyles_raises:
  "inlineStyles sp doc = Inl e \<Longrightarrow> e = SelectorSyntaxError"
proof -
  have a: "applyClass d x = Inl e \<Longrightarrow> e = SelectorSyntaxError" for d x
    by (auto simp: applyClass_def querySelectorAllClass_def split: if_splits sum.splits)
  have f: "forEachClass d es = Inl e \<Longrightarrow> e = SelectorSyntaxError" for d es
    by (induction es arbitrary: d) (auto dest: a split: sum.splits)
  assume "inlineStyles sp doc = Inl e"
  then show ?thesis
    by (auto simp: inlineStyles_def applyClassStyles_def Let_def dest: f split: sum.splits)
qed

section \<open>The class table\<close>

lemma table_loop_commute:
  "c \<notin> fst ` set mid \<Longrightarrow> c \<in> fst ` set T \<Longrightarrow>
   putEntry c v (foldl (\<lambda>classStyles rule. if fst rule = ''__proto__'' then classStyles
                                            else putEntry (fst rule) (snd rule) classStyles) T mid)
     = foldl (\<lambda>classStyles rule. if fst rule = ''__proto__'' then classStyles
                                   else putEntry (fst rule) (snd rule) classStyles) (putEntry c v T) mid"
proof (induction mid arbitrary: T)
  case Nil
  then show ?case by simp
next
  case (Cons r mid)
  then have ne: "c \<noteq> fst r" and m: "c \<notin> fst ` set mid" by auto
  show ?case
  proof (cases "fst r = ''__proto__''")
    case True
    then show ?thesis using Cons.IH [OF m Cons.prems(2)] by simp
  next
    case False
    have k: "c \<in> fst ` set (putEntry (fst r) (snd r) T)" using Cons.prems(2) by (simp add: keys_putEntry)
    have "putEntry c v (putEntry (fst r) (snd r) T) = putEntry (fst r) (snd r) (putEntry c v T)"
      using ne Cons.prems(2) by (rule putEntry_commute)
    then show ?thesis using Cons.IH [OF m k] False by simp
  qed
qed

lemma classTable_duplicate:
  assumes "c \<notin> fst ` set mid"
  shows "classTable (pre @ [(c, d1)] @ mid @ [(c, d2)] @ post) = classTable (pre @ [(c, d2)] @ mid @ post)"
proof (cases "c = ''__proto__''")
  case True
  then show ?thesis by (simp add: classTable_def)
next
  case False
  let ?step = "\<lambda>classStyles rule. if fst rule = ''__proto__'' then classStyles
                                     else putEntry (fst rule) (snd rule) classStyles"
  let ?T = "foldl ?step [] pre"
  have k: "c \<in> fst ` set (putEntry c d1 ?T)" by (simp add: keys_putEntry)
  have "putEntry c d2 (foldl ?step (putEntry c d1 ?T) mid) = foldl ?step (putEntry c d2 (putEntry c d1 ?T)) mid"
    using assms k by (rule table_loop_commute)
  also have "\<dots> = foldl ?step (putEntry c d2 ?T) mid" by (simp add: putEntry_twice)
  finally show ?thesis using False by (simp add: classTable_def)
qed

section \<open>The tag renamer\<close>

text \<open>
  Copying the attributes of an element gives the same attributes in the same
  order, since no name occurs twice; moving the children gives the same children in
  the same order. So one turn of the renamer's outer loop rewrites the tags equal
  to the name in turn, and nothing else.
\<close>

lemma moveChildren_append: "moveChildren cs dst = dst @ cs"
  by (induction cs arbitrary: dst) simp_all

lemma copyAttributes_distinct: "distinct (map fst as) \<Longrightarrow> copyAttributes as = as"
  using put_loop [of "[]" as] by (simp add: copyAttributes_def setAttribute_def)

lemma renamedElement_onElement:
  "renamedElement elementName = onElement (\<lambda>x. (capitalize elementName, copyAttributes (snd x)))"
proof
  fix n show "renamedElement elementName n = onElement (\<lambda>x. (capitalize elementName, copyAttributes (snd x))) n"
    by (cases n) (simp_all add: renamedElement_def moveChildren_append)
qed

lemma tagAt_selected: "(tagAt doc p = Some name) = selected (\<lambda>x. fst x = name) (nodeAt doc p)"
proof (cases "nodeAt doc p")
  case None
  then show ?thesis by (simp add: tagAt_def)
next
  case (Some n)
  then show ?thesis by (cases n) (simp_all add: tagAt_def)
qed

lemma renameTag_mapElements:
  "renameTag doc elementName
     = map (mapElements (\<lambda>x. if fst x = elementName then (capitalize elementName, copyAttributes (snd x)) else x)) doc"
  unfolding renameTag_def querySelectorAllTag_def renamedElement_onElement tagAt_selected
  by (rule snapshot_loop)

lemma attributeLists_distinct:
  "distinctAttributes n \<Longrightarrow> as \<in> set (attributeLists n) \<Longrightarrow> distinct (map fst as)"
  by (induction n) (auto simp: list_all_iff)

lemma renameTag_tags:
  assumes "list_all distinctAttributes doc"
  shows "renameTag doc elementName
           = map (mapElements (\<lambda>x. (if fst x = elementName then capitalize elementName else fst x, snd x))) doc"
proof -
  have "mapElements (\<lambda>x. if fst x = elementName then (capitalize elementName, copyAttributes (snd x)) else x) n
          = mapElements (\<lambda>x. (if fst x = elementName then capitalize elementName else fst x, snd x)) n"
    if "n \<in> set doc" for n
  proof (rule mapElements_cong)
    fix as assume "as \<in> set (attributeLists n)"
    with that assms have "distinct (map fst as)"
      using attributeLists_distinct by (auto simp: list_all_iff)
    then show "\<forall>t. (if fst (t, as) = elementName then (capitalize elementName, copyAttributes (snd (t, as))) else (t, as))
                 = (if fst (t, as) = elementName then capitalize elementName else fst (t, as), snd (t, as))"
      by (simp add: copyAttributes_distinct)
  qed
  then show ?thesis by (simp add: renameTag_mapElements)
qed

lemma distinctAttributes_mapElements:
  "distinctAttributes n \<Longrightarrow> (\<And>x. snd (k x) = snd x) \<Longrightarrow> distinctAttributes (mapElements k n)"
  by (induction n) (auto simp: list_all_iff)

lemma rename_loop:
  "list_all distinctAttributes doc \<Longrightarrow>
   foldl renameTag doc names
     = map (mapElements (\<lambda>x. (foldl (\<lambda>t n. if t = n then capitalize n else t) (fst x) names, snd x))) doc"
proof (induction names arbitrary: doc)
  case Nil
  have "mapElements (\<lambda>x. (fst x, snd x)) n = n" for n by (induction n) (simp_all add: map_idI)
  then show ?case by (simp add: map_idI)
next
  case (Cons name names)
  let ?d = "map (mapElements (\<lambda>x. (if fst x = name then capitalize name else fst x, snd x))) doc"
  have d: "renameTag doc name = ?d" using Cons.prems by (rule renameTag_tags)
  have "list_all distinctAttributes ?d"
    using Cons.prems by (auto simp: list_all_iff intro: distinctAttributes_mapElements)
  then have "foldl renameTag ?d names
               = map (mapElements (\<lambda>x. (foldl (\<lambda>t n. if t = n then capitalize n else t) (fst x) names, snd x))) ?d"
    by (rule Cons.IH)
  then show ?case by (simp add: d mapElements_comp comp_def)
qed

lemma tag_loop:
  "\<forall>n\<in>set names. capitalize n \<notin> set names \<Longrightarrow>
   foldl (\<lambda>t n. if t = n then capitalize n else t) t names = (if t \<in> set names then capitalize t else t)"
proof (induction names arbitrary: t)
  case Nil
  then show ?case by simp
next
  case (Cons n names)
  then have ih: "\<And>t. foldl (\<lambda>t n. if t = n then capitalize n else t) t names
                      = (if t \<in> set names then capitalize t else t)" by simp
  show ?case
  proof (cases "t = n")
    case True
    have "capitalize n \<notin> set names" using Cons.prems by simp
    with True ih show ?thesis by simp
  next
    case False
    with ih show ?thesis by simp
  qed
qed

lemma capitalized_not_in_vocabulary: "\<forall>n\<in>set svgElements. capitalize n \<notin> set svgElements"
  by code_simp

lemma convertToReactNativeSvg_tags:
  assumes "list_all distinctAttributes doc"
  shows "convertToReactNativeSvg doc = map (mapElements (\<lambda>x. (renamedTag (fst x), snd x))) doc"
  unfolding convertToReactNativeSvg_def rename_loop [OF assms] renamedTag_def
  using tag_loop [OF capitalized_not_in_vocabulary] by simp

section \<open>Scenario 1\<close>


section \<open>Values with a colon\<close>

text \<open>
  Claim C5. The claim reads every piece of a declaration text as split at its
  first colon, the value being the whole rest. The code (lines 70 and 138) splits
  at every colon and keeps the first two parts: for the style text of \<open>urlInput\<close>
  the value of \<^verbatim>\<open>fill\<close> stops before its second colon, in the structured path,
  in the text the fallback builds and in what the function writes, whereas the
  split at the first colon (\<open>styleDeclaration\<close>) keeps the value whole.
\<close>

theorem value_cut_at_second_colon:
  "declarations ''fill:url(http://x/p.svg#g);stroke:blue''
     = [(''fill'', Some ''url(http''), (''stroke'', Some ''blue'')]
   \<and> map styleDeclaration (styleProps ''fill:url(http://x/p.svg#g);stroke:blue'')
     = [(''fill'', ''url(http://x/p.svg#g)''), (''stroke'', ''blue'')]
   \<and> inlineStyle ''fill:url(http://x/p.svg#g);stroke:blue'' = ''fill:url(http;stroke:blue''
   \<and> files (convertSvgStylesToInline plainMarkup (oneFile ''in.svg'' urlInput) ''in.svg'' ''out.svg'' False)
       ''out.svg''
     = Some (''<svg><path style='' @ [dquote] @ ''fill:url(http;stroke:blue;'' @ [dquote] @ ''/></svg>'')"
  by code_simp

section \<open>A document without a style element\<close>

text \<open>
  Claim C7. The claim has the structured path end with the unchanged tree as its
  serialized output when there is no style element under \<^verbatim>\<open>defs\<close> and no renaming
  is asked for. The code returns at line 37 before anything is written: for
  \<open>noStyleInput\<close> the loader succeeds, the structured path ends without an error,
  and the output file does not exist afterwards. The fallback, in the same
  situation, copies the input to the output (line 267).
\<close>

theorem no_style_no_output:
  "parseXml (sanitizedContent noStyleInput) = Some [Element ''svg'' [] [Element ''path'' [(''d'', ''M0 0'')] []]]
   \<and> querySelectorDefsStyle [Element ''svg'' [] [Element ''path'' [(''d'', ''M0 0'')] []]] = None
   \<and> structuredPipeline plainMarkup (oneFile ''in.svg'' noStyleInput) ''in.svg'' ''out.svg'' False
       = Inr (oneFile ''in.svg'' noStyleInput)
   \<and> files (convertSvgStylesToInline plainMarkup (oneFile ''in.svg'' noStyleInput) ''in.svg'' ''out.svg'' False)
       ''out.svg'' = None
   \<and> fallbackText noStyleInput False = noStyleInput"
proof -
  have p: "parseXml (sanitizedContent noStyleInput) = Some [Element ''svg'' [] [Element ''path'' [(''d'', ''M0 0'')] []]]"
    by code_simp
  have q: "querySelectorDefsStyle [Element ''svg'' [] [Element ''path'' [(''d'', ''M0 0'')] []]] = None"
    by code_simp
  have s: "structuredPipeline plainMarkup (oneFile ''in.svg'' noStyleInput) ''in.svg'' ''out.svg'' False
             = Inr (oneFile ''in.svg'' noStyleInput)"
    by (simp add: structuredPipeline_def readFileSync_def oneFile_def plainMarkup_def p q)
  have c: "files (convertSvgStylesToInline plainMarkup (oneFile ''in.svg'' noStyleInput) ''in.svg'' ''out.svg'' False)
             ''out.svg'' = None"
    by (simp add: convertSvgStylesToInline_def s) (simp add: oneFile_def)
  have f: "fallbackText noStyleInput False = noStyleInput"
    by code_simp
  show ?thesis
    using p q s c f by (simp only: simp_thms)
qed

section \<open>Two styled classes on one element, in the fallback\<close>

text \<open>
  Claim C8. The claim has the passes of the fallback compose, so that an element
  with two styled classes ends with one \<^verbatim>\<open>style\<close> attribute holding the
  declarations of both. For \<open>twoClassInput\<close> the loader fails, the fallback runs,
  and the pass for the second class replaces the remaining \<^verbatim>\<open>class\<close> attribute
  by a second \<^verbatim>\<open>style\<close> attribute: the element ends with two.
\<close>

theorem fallback_two_style_attributes:
  "parseXml (sanitizedContent twoClassInput) = None
   \<and> files (convertSvgStylesToInline plainMarkup (oneFile ''in.svg'' twoClassInput) ''in.svg'' ''out.svg'' False)
       ''out.svg''
     = Some (''<svg><path style='' @ [dquote] @ ''stroke:blue'' @ [dquote]
             @ '' style='' @ [dquote] @ ''fill:red'' @ [dquote] @ ''></svg>'')"
  by code_simp

section \<open>Errors of the structured path\<close>

text \<open>
  The stages of the structured path that raise in this model: reading the input,
  loading the document, selecting the elements of a class whose name is empty (the
  classes before it in the table have been applied to the document by then),
  writing the output.
\<close>

lemma structuredPipeline_error_cases:
  "structuredPipeline jd fs inputPath outputPath reactNative = Inl e \<longleftrightarrow>
     (files fs inputPath = None \<and> e = ReadFailure)
   \<or> (\<exists>c. files fs inputPath = Some c \<and> parse jd (sanitizedContent c) = None \<and> e = ParseFailure)
   \<or> (\<exists>c doc sp. files fs inputPath = Some c \<and> parse jd (sanitizedContent c) = Some doc
         \<and> querySelectorDefsStyle doc = Some sp \<and> inlineStyles sp doc = Inl e)
   \<or> (\<exists>c doc. files fs inputPath = Some c \<and> parse jd (sanitizedContent c) = Some doc
         \<and> (reactNative \<and> querySelectorDefsStyle doc = None
              \<or> (\<exists>sp doc1. querySelectorDefsStyle doc = Some sp \<and> inlineStyles sp doc = Inr doc1))
         \<and> \<not> writable fs outputPath \<and> e = WriteFailure)"
  by (auto simp: structuredPipeline_def readFileSync_def writeFileSync_def Let_def
      split: option.splits sum.splits if_splits)



section \<open>More than one style block, in the fallback\<close>




section \<open>The renamer keeps the structure\<close>

text \<open>
  Claim C6. For every document whose elements have each attribute name once (as
  every loaded document has), the renamer changes tags only, and only the tags of
  the vocabulary, to their capitalized form. The elements stand at the same paths
  as before, so there are as many and each has the place among its parent's
  children that it had; at every path the attributes (names, values and order) and
  the number of child nodes are what they were.
\<close>

theorem rename_keeps_structure:
  assumes "list_all distinctAttributes doc"
  shows "convertToReactNativeSvg doc = map (mapElements (\<lambda>x. (renamedTag (fst x), snd x))) doc
         \<and> elementPaths (convertToReactNativeSvg doc) = elementPaths doc
         \<and> (\<forall>p. tagAt (convertToReactNativeSvg doc) p = map_option renamedTag (tagAt doc p)
                \<and> attributesAt (convertToReactNativeSvg doc) p = attributesAt doc p
                \<and> childCountAt (convertToReactNativeSvg doc) p = childCountAt doc p)"
proof -
  let ?k = "\<lambda>x. (renamedTag (fst x), snd x)"
  have e: "convertToReactNativeSvg doc = map (mapElements ?k) doc"
    using assms by (rule convertToReactNativeSvg_tags)
  have t: "tagName (mapElements ?k n) = map_option renamedTag (tagName n)" for n
    by (cases n) simp_all
  have a: "attributes (mapElements ?k n) = attributes n" for n
    by (cases n) simp_all
  have "tagAt (map (mapElements ?k) doc) p = map_option renamedTag (tagAt doc p)
        \<and> attributesAt (map (mapElements ?k) doc) p = attributesAt doc p
        \<and> childCountAt (map (mapElements ?k) doc) p = childCountAt doc p" for p
    by (cases "nodeAt doc p")
      (simp_all add: tagAt_def attributesAt_def childCountAt_def nodeAt_mapElements t a childNodes_mapElements)
  then show ?thesis
    by (simp add: e elementPaths_mapElements)
qed

theorem rename_keeps_structure_witness:
  "list_all distinctAttributes
     [Element ''svg'' [(''viewBox'', ''0 0 1 1''), (''id'', ''s'')]
        [Element ''g'' [] [Element ''path'' [(''d'', ''M0 0'')] [], Element ''switch'' [] [], Text ''x'']]]
   \<and> convertToReactNativeSvg
       [Element ''svg'' [(''viewBox'', ''0 0 1 1''), (''id'', ''s'')]
          [Element ''g'' [] [Element ''path'' [(''d'', ''M0 0'')] [], Element ''switch'' [] [], Text ''x'']]]
     = [Element ''Svg'' [(''viewBox'', ''0 0 1 1''), (''id'', ''s'')]
          [Element ''G'' [] [Element ''Path'' [(''d'', ''M0 0'')] [], Element ''switch'' [] [], Text ''x'']]]"
proof -
  let ?doc = "[Element ''svg'' [(''viewBox'', ''0 0 1 1''), (''id'', ''s'')]
        [Element ''g'' [] [Element ''path'' [(''d'', ''M0 0'')] [], Element ''switch'' [] [], Text ''x'']]]"
  have h: "list_all distinctAttributes ?doc" by simp
  have r: "map (mapElements (\<lambda>x. (renamedTag (fst x), snd x))) ?doc
             = [Element ''Svg'' [(''viewBox'', ''0 0 1 1''), (''id'', ''s'')]
                  [Element ''G'' [] [Element ''Path'' [(''d'', ''M0 0'')] [], Element ''switch'' [] [], Text ''x'']]]"
    by code_simp
  show ?thesis
    using h rename_keeps_structure [OF h] r by simp
qed

section \<open>The data-name attribute\<close>




section \<open>A class declared twice\<close>

text \<open>
  Claim C2, as stated, fails: when the style text declares the class \<^verbatim>\<open>a\<close> twice,
  line 53 replaces the first declaration text by the second, and the property
  \<^verbatim>\<open>fill\<close>, listed in the first declaration only, is not applied.
\<close>

theorem earlier_declaration_lost:
  \<open>classStylesOf ''.a{fill:red}.a{stroke:blue}'' = [(''a'', ''stroke:blue'')]
   \<and> files (convertSvgStylesToInline plainMarkup (oneFile ''in.svg'' twiceDeclared) ''in.svg'' ''out.svg'' False)
       ''out.svg''
     = Some ''<svg><path style="stroke:blue;"/></svg>''\<close>
  by code_simp

text \<open>
  Claim C2, amended. When the rules of the style text declare a class \<open>c\<close> twice
  (and not in between), the class table is the one of the rules with the later
  declaration text in the place of the earlier and the later rule left out: the
  later declaration replaces the earlier one as a whole. The applier, which reads
  the table only, treats every document accordingly; the earlier declaration text
  plays no part.
\<close>

theorem later_declaration_replaces_earlier:
  assumes "cssRules styleText = pre @ [(c, d1)] @ mid @ [(c, d2)] @ post"
    and "c \<notin> fst ` set mid"
  shows "classStylesOf styleText = classTable (pre @ [(c, d2)] @ mid @ post)
         \<and> applyClassStyles (classStylesOf styleText) doc
             = applyClassStyles (classTable (pre @ [(c, d2)] @ mid @ post)) doc"
  using classTable_duplicate [OF assms(2), of pre d1 d2 post]
  by (simp add: classStylesOf_def assms(1))

theorem later_declaration_replaces_earlier_witness:
  "cssRules ''.a{fill:red}.a{stroke:blue}'' = [] @ [(''a'', ''fill:red'')] @ [] @ [(''a'', ''stroke:blue'')] @ []
   \<and> classStylesOf ''.a{fill:red}.a{stroke:blue}'' = [(''a'', ''stroke:blue'')]"
proof -
  have 1: "cssRules ''.a{fill:red}.a{stroke:blue}'' = [] @ [(''a'', ''fill:red'')] @ [] @ [(''a'', ''stroke:blue'')] @ []"
    by code_simp
  have 2: "''a'' \<notin> fst ` set ([] :: (string \<times> string) list)" by simp
  have 3: "classTable ([] @ [(''a'', ''stroke:blue'')] @ [] @ []) = [(''a'', ''stroke:blue'')]"
    by code_simp
  show ?thesis
    using 1 later_declaration_replaces_earlier [OF 1 2] 3 by simp
qed

section \<open>Style completeness\<close>





end
